theory Spec2Isabelle
  imports Main
begin

section \<open>The In-App-Billing bridge facade (www/android\_iab.js)\<close>

text \<open>
  The module is a JavaScript object whose methods log a diagnostic line, check
  the product identifiers they are given and hand the call to the host's
  \<^verbatim>\<open>cordova.exec\<close>. The embedding below follows the file method by method.
  What a method does to the outside world is recorded as a list of events, in
  program order; what it does to the instance is the instance it returns.
\<close>

subsection \<open>JavaScript values\<close>

text \<open>
  The numbers of the embedding are the integers of magnitude at most \<open>2\<^sup>5\<^sup>3\<close>.
  Each of them is a JavaScript number (a double holds it exactly), no two of
  them are the same double, and JavaScript prints each as its decimal digits.
\<close>

typedef safe_integer = "{n :: int. \<bar>n\<bar> \<le> 2 ^ 53}"
  by (rule exI [of _ 0]) simp

text \<open>
  The values that can be passed as \<^verbatim>\<open>productIds\<close>, \<^verbatim>\<open>productId\<close> or as the
  \<^verbatim>\<open>showLog\<close> option: the primitives and arrays of such values. Strings are
  ASCII text. Plain objects occur only as the \<^verbatim>\<open>options\<close> argument and have
  their own type below.
\<close>

datatype jsval =
    JUndefined
  | JNull
  | JBool bool
  | JNum safe_integer
  | JStr string
  | JArr "jsval list"

text \<open>A plain object: its own properties by name.\<close>

type_synonym js_object = "string \<rightharpoonup> jsval"

text \<open>
  The \<^verbatim>\<open>options\<close> argument of \<^verbatim>\<open>init\<close>: documented as an object, and the code
  provides for a caller leaving it out.
\<close>

datatype options_arg =
    Opt_undefined
  | Opt_null
  | Opt_object js_object

text \<open>The caller's callbacks are opaque function references.\<close>

datatype callback = Callback nat

datatype js_error = TypeError

text \<open>\<^verbatim>\<open>typeof v\<close>.\<close>

fun typeof :: "jsval \<Rightarrow> string" where
  "typeof JUndefined = ''undefined''"
| "typeof JNull = ''object''"
| "typeof (JBool b) = ''boolean''"
| "typeof (JNum n) = ''number''"
| "typeof (JStr s) = ''string''"
| "typeof (JArr xs) = ''object''"

text \<open>Truthiness, as \<^verbatim>\<open>!v\<close> and \<^verbatim>\<open>v || w\<close> test it.\<close>

fun truthy :: "jsval \<Rightarrow> bool" where
  "truthy JUndefined = False"
| "truthy JNull = False"
| "truthy (JBool b) = b"
| "truthy (JNum n) = (Rep_safe_integer n \<noteq> 0)"
| "truthy (JStr s) = (s \<noteq> [])"
| "truthy (JArr xs) = True"

text \<open>\<^verbatim>\<open>a || b\<close>: the left operand when it is truthy, else the right one.\<close>

definition js_or :: "jsval \<Rightarrow> jsval \<Rightarrow> jsval" where
  "js_or a b = (if truthy a then a else b)"

text \<open>
  \<^verbatim>\<open>options || (options = {})\<close>: \<^verbatim>\<open>undefined\<close> and \<^verbatim>\<open>null\<close> are falsy, every object
  is truthy. The result is the object that \<^verbatim>\<open>options\<close> names afterwards.
\<close>

fun options_or_empty :: "options_arg \<Rightarrow> js_object" where
  "options_or_empty Opt_undefined = Map.empty"
| "options_or_empty Opt_null = Map.empty"
| "options_or_empty (Opt_object obj) = obj"

text \<open>\<^verbatim>\<open>obj.name\<close> on an object: \<^verbatim>\<open>undefined\<close> when the property is missing.\<close>

definition get_prop :: "js_object \<Rightarrow> string \<Rightarrow> jsval" where
  "get_prop obj name = (case obj name of None \<Rightarrow> JUndefined | Some v \<Rightarrow> v)"

text \<open>
  \<^verbatim>\<open>v.length\<close>: reading a property of \<^verbatim>\<open>undefined\<close> or \<^verbatim>\<open>null\<close> throws a TypeError;
  booleans and numbers have no such property (the result \<^verbatim>\<open>undefined\<close> is \<open>None\<close>);
  strings and arrays have their length.
\<close>

fun get_length :: "jsval \<Rightarrow> js_error + int option" where
  "get_length JUndefined = Inl TypeError"
| "get_length JNull = Inl TypeError"
| "get_length (JBool b) = Inr None"
| "get_length (JNum n) = Inr None"
| "get_length (JStr s) = Inr (Some (int (length s)))"
| "get_length (JArr xs) = Inr (Some (int (length xs)))"

text \<open>\<^verbatim>\<open>len > 0\<close> on such a length: \<^verbatim>\<open>undefined > 0\<close> is false.\<close>

fun gt_zero :: "int option \<Rightarrow> bool" where
  "gt_zero None = False"
| "gt_zero (Some n) = (n > 0)"

text \<open>\<^verbatim>\<open>!len\<close> on such a length: \<^verbatim>\<open>undefined\<close> and \<open>0\<close> are falsy.\<close>

fun falsy_length :: "int option \<Rightarrow> bool" where
  "falsy_length None = True"
| "falsy_length (Some n) = (n = 0)"

text \<open>
  \<^verbatim>\<open>v[0]\<close> where \<^verbatim>\<open>v.length\<close> could be read (so \<open>v\<close> is neither \<^verbatim>\<open>undefined\<close> nor
  \<^verbatim>\<open>null\<close>): an element that is not there reads as \<^verbatim>\<open>undefined\<close>.
\<close>

fun index0 :: "jsval \<Rightarrow> jsval" where
  "index0 (JArr (x # xs)) = x"
| "index0 (JStr (c # cs)) = JStr [c]"
| "index0 v = JUndefined"

subsection \<open>JSON.stringify\<close>

text \<open>
  The character of a digit below sixteen, and the decimal digits of a natural
  number, most significant first.
\<close>

definition digit :: "nat \<Rightarrow> char" where
  "digit d = ''0123456789abcdef'' ! d"

fun decimal :: "nat \<Rightarrow> string" where
  "decimal n =
     (if n < 10 then [digit n]
      else decimal (n div 10) @ [digit (n mod 10)])"

declare decimal.simps [simp del]

text \<open>
  The text of a number: for an integer of magnitude at most \<open>2\<^sup>5\<^sup>3\<close> the shortest
  digits that give the number back are all its decimal digits, behind a minus
  sign when it is negative.
\<close>

definition number_to_string :: "safe_integer \<Rightarrow> string" where
  "number_to_string v =
     (let n = Rep_safe_integer v in
      if n < 0 then CHR ''-'' # decimal (nat (- n)) else decimal (nat n))"

text \<open>
  One character inside a JSON string: the quote and the backslash are escaped
  with a backslash, the control characters below \<open>0x20\<close> by their short form
  or as \<^verbatim>\<open>\u00XX\<close> in lower-case hexadecimal.
\<close>

definition quote_char :: "char \<Rightarrow> string" where
  "quote_char c =
     (let k = (of_char c :: nat) in
      if k = 0x22 then [CHR 0x5C, CHR 0x22]
      else if k = 0x5C then [CHR 0x5C, CHR 0x5C]
      else if k = 0x08 then [CHR 0x5C, CHR ''b'']
      else if k = 0x09 then [CHR 0x5C, CHR ''t'']
      else if k = 0x0A then [CHR 0x5C, CHR ''n'']
      else if k = 0x0C then [CHR 0x5C, CHR ''f'']
      else if k = 0x0D then [CHR 0x5C, CHR ''r'']
      else if k < 0x20 then
        [CHR 0x5C, CHR ''u'', CHR ''0'', CHR ''0'', digit (k div 16), digit (k mod 16)]
      else [c])"

definition quote_json_string :: "string \<Rightarrow> string" where
  "quote_json_string s = CHR 0x22 # concat (map quote_char s) @ [CHR 0x22]"

fun join_comma :: "string list \<Rightarrow> string" where
  "join_comma [] = []"
| "join_comma [x] = x"
| "join_comma (x # y # ys) = x @ CHR '','' # join_comma (y # ys)"

text \<open>
  The text of a value inside an array (or of the whole array): there
  \<^verbatim>\<open>undefined\<close> is written \<^verbatim>\<open>null\<close>.
\<close>

fun json_text :: "jsval \<Rightarrow> string" where
  "json_text JUndefined = ''null''"
| "json_text JNull = ''null''"
| "json_text (JBool b) = (if b then ''true'' else ''false'')"
| "json_text (JNum n) = number_to_string n"
| "json_text (JStr s) = quote_json_string s"
| "json_text (JArr xs) = CHR ''['' # join_comma (map json_text xs) @ '']''"

text \<open>
  \<^verbatim>\<open>JSON.stringify(v)\<close>: for \<^verbatim>\<open>undefined\<close> itself the result is \<^verbatim>\<open>undefined\<close>
  (\<open>None\<close>), for every other value a string.
\<close>

definition JSON_stringify :: "jsval \<Rightarrow> string option" where
  "JSON_stringify v = (if v = JUndefined then None else Some (json_text v))"

text \<open>\<^verbatim>\<open>s + JSON.stringify(v)\<close>: \<^verbatim>\<open>undefined\<close> is appended as the word.\<close>

fun str_plus :: "string \<Rightarrow> string option \<Rightarrow> string" where
  "str_plus s None = s @ ''undefined''"
| "str_plus s (Some t) = s @ t"

subsection \<open>Events and results\<close>

text \<open>
  What a method does to the outside: a line on the console, a call of one of
  the caller's callbacks with one argument, or a call of
  \<^verbatim>\<open>cordova.exec(success, fail, plugin, action, args)\<close>.
\<close>

datatype event =
    Console_log string
  | Invoke callback jsval
  | Cordova_exec callback callback string string "jsval list"

text \<open>
  How a method ends: with a plain \<^verbatim>\<open>return\<close>, by returning what
  \<^verbatim>\<open>cordova.exec\<close> returned, or with an exception.
\<close>

datatype completion =
    Return_undefined
  | Return_exec
  | Throw js_error

subsection \<open>The instance\<close>

text \<open>
  An instance has its \<^verbatim>\<open>options\<close> object and, since \<^verbatim>\<open>init\<close> may replace it on
  the instance, its \<^verbatim>\<open>log\<close> method: the prototype's, which prints, or the empty
  function.
\<close>

datatype log_method = Log_console | Log_nothing

record InAppBilling =
  options :: js_object
  log_method :: log_method

text \<open>\<^verbatim>\<open>new InAppBilling()\<close>.\<close>

definition new_InAppBilling :: InAppBilling where
  "new_InAppBilling = \<lparr> options = Map.empty, log_method = Log_console \<rparr>"

type_synonym result = "InAppBilling \<times> event list \<times> completion"

subsection \<open>Error codes\<close>

definition ERROR_CODES_BASE :: int where "ERROR_CODES_BASE = 4983497"

definition ERR_SETUP :: int where "ERR_SETUP = ERROR_CODES_BASE + 1"
definition ERR_LOAD :: int where "ERR_LOAD = ERROR_CODES_BASE + 2"
definition ERR_PURCHASE :: int where "ERR_PURCHASE = ERROR_CODES_BASE + 3"
definition ERR_LOAD_RECEIPTS :: int where "ERR_LOAD_RECEIPTS = ERROR_CODES_BASE + 4"
definition ERR_CLIENT_INVALID :: int where "ERR_CLIENT_INVALID = ERROR_CODES_BASE + 5"
definition ERR_PAYMENT_CANCELLED :: int where "ERR_PAYMENT_CANCELLED = ERROR_CODES_BASE + 6"
definition ERR_PAYMENT_INVALID :: int where "ERR_PAYMENT_INVALID = ERROR_CODES_BASE + 7"
definition ERR_PAYMENT_NOT_ALLOWED :: int where "ERR_PAYMENT_NOT_ALLOWED = ERROR_CODES_BASE + 8"
definition ERR_UNKNOWN :: int where "ERR_UNKNOWN = ERROR_CODES_BASE + 10"
definition ERR_LOAD_INVENTORY :: int where "ERR_LOAD_INVENTORY = ERROR_CODES_BASE + 11"
definition ERR_HELPER_DISPOSED :: int where "ERR_HELPER_DISPOSED = ERROR_CODES_BASE + 12"
definition ERR_NOT_INITIALIZED :: int where "ERR_NOT_INITIALIZED = ERROR_CODES_BASE + 13"
definition ERR_INVENTORY_NOT_LOADED :: int where "ERR_INVENTORY_NOT_LOADED = ERROR_CODES_BASE + 14"
definition ERR_PURCHASE_FAILED :: int where "ERR_PURCHASE_FAILED = ERROR_CODES_BASE + 15"
definition ERR_JSON_CONVERSION_FAILED :: int where "ERR_JSON_CONVERSION_FAILED = ERROR_CODES_BASE + 16"
definition ERR_INVALID_PURCHASE_PAYLOAD :: int where "ERR_INVALID_PURCHASE_PAYLOAD = ERROR_CODES_BASE + 17"
definition ERR_SUBSCRIPTION_NOT_SUPPORTED :: int where "ERR_SUBSCRIPTION_NOT_SUPPORTED = ERROR_CODES_BASE + 18"
definition ERR_CONSUME_NOT_OWNED_ITEM :: int where "ERR_CONSUME_NOT_OWNED_ITEM = ERROR_CODES_BASE + 19"
definition ERR_CONSUMPTION_FAILED :: int where "ERR_CONSUMPTION_FAILED = ERROR_CODES_BASE + 20"

text \<open>The nineteen codes, in the order of the file.\<close>

definition error_codes :: "int list" where
  "error_codes =
     [ERR_SETUP, ERR_LOAD, ERR_PURCHASE, ERR_LOAD_RECEIPTS, ERR_CLIENT_INVALID,
      ERR_PAYMENT_CANCELLED, ERR_PAYMENT_INVALID, ERR_PAYMENT_NOT_ALLOWED, ERR_UNKNOWN,
      ERR_LOAD_INVENTORY, ERR_HELPER_DISPOSED, ERR_NOT_INITIALIZED,
      ERR_INVENTORY_NOT_LOADED, ERR_PURCHASE_FAILED, ERR_JSON_CONVERSION_FAILED,
      ERR_INVALID_PURCHASE_PAYLOAD, ERR_SUBSCRIPTION_NOT_SUPPORTED,
      ERR_CONSUME_NOT_OWNED_ITEM, ERR_CONSUMPTION_FAILED]"

subsection \<open>The methods\<close>

text \<open>
  \<^verbatim>\<open>this.log(msg)\<close>: the prototype's method prints the message behind the
  module's prefix; the replacement that \<^verbatim>\<open>init\<close> may install does nothing.
\<close>

definition log :: "InAppBilling \<Rightarrow> string \<Rightarrow> event list" where
  "log this msg =
     (case log_method this of
        Log_console \<Rightarrow> [Console_log (''InAppBilling[js]: '' @ msg)]
      | Log_nothing \<Rightarrow> [])"

definition plugin :: string where
  "plugin = ''InAppBillingPlugin''"

text \<open>
  \<^verbatim>\<open>if (typeof productIds === "string") { productIds = [productIds]; }\<close>, the
  first step of both methods that take a list of identifiers.
\<close>

definition wrap_string :: "jsval \<Rightarrow> jsval" where
  "wrap_string productIds =
     (if typeof productIds = ''string'' then JArr [productIds] else productIds)"

text \<open>
  \<^verbatim>\<open>init\<close>. The flag \<^verbatim>\<open>hasProductIds\<close> of the source is set on exactly one path,
  the one on which the first identifier is a string; that path is the branch
  below that ends in the bridge call with \<^verbatim>\<open>[productIds]\<close>, every other path that
  reaches the end of the method makes the call with \<^verbatim>\<open>[]\<close>.
\<close>

definition init :: "InAppBilling \<Rightarrow> callback \<Rightarrow> callback \<Rightarrow> options_arg \<Rightarrow> jsval \<Rightarrow> result" where
  "init this0 success fail opts0 productIds0 =
     (let opts = options_or_empty opts0;
          this1 = this0 \<lparr> options := [''showLog'' \<mapsto> js_or (get_prop opts ''showLog'') (JBool True)] \<rparr>;
          this = (if \<not> truthy (get_prop (options this1) ''showLog'')
                  then this1 \<lparr> log_method := Log_nothing \<rparr> else this1);
          out1 = log this ''setup ok''
      in
      if typeof productIds0 \<noteq> ''undefined'' then
        (let productIds = wrap_string productIds0 in
         case get_length productIds of
           Inl err \<Rightarrow> (this, out1, Throw err)
         | Inr len \<Rightarrow>
             if gt_zero len then
               if typeof (index0 productIds) \<noteq> ''string'' then
                 (let msg = str_plus ''invalid productIds: '' (JSON_stringify productIds) in
                  (this, out1 @ log this msg @ [Invoke fail (JStr msg)], Return_undefined))
               else
                 (this,
                  out1 @ log this (str_plus ''load '' (JSON_stringify productIds))
                    @ [Cordova_exec success fail plugin ''init'' [productIds]],
                  Return_exec)
             else
               (this, out1 @ [Cordova_exec success fail plugin ''init'' []], Return_exec))
      else
        (this, out1 @ [Cordova_exec success fail plugin ''init'' []], Return_exec))"

definition getPurchases :: "InAppBilling \<Rightarrow> callback \<Rightarrow> callback \<Rightarrow> result" where
  "getPurchases this success fail =
     (this,
      log this ''getPurchases called!''
        @ [Cordova_exec success fail plugin ''getPurchases'' [JStr ''null'']],
      Return_exec)"

definition buy :: "InAppBilling \<Rightarrow> callback \<Rightarrow> callback \<Rightarrow> jsval \<Rightarrow> result" where
  "buy this success fail productId =
     (this,
      log this ''buy called!'' @ [Cordova_exec success fail plugin ''buy'' [productId]],
      Return_exec)"

definition subscribe :: "InAppBilling \<Rightarrow> callback \<Rightarrow> callback \<Rightarrow> jsval \<Rightarrow> result" where
  "subscribe this success fail productId =
     (this,
      log this ''subscribe called!''
        @ [Cordova_exec success fail plugin ''subscribe'' [productId]],
      Return_exec)"

definition consumePurchase :: "InAppBilling \<Rightarrow> callback \<Rightarrow> callback \<Rightarrow> jsval \<Rightarrow> result" where
  "consumePurchase this success fail productId =
     (this,
      log this ''consumePurchase called!''
        @ [Cordova_exec success fail plugin ''consumePurchase'' [productId]],
      Return_exec)"

definition getAvailableProducts :: "InAppBilling \<Rightarrow> callback \<Rightarrow> callback \<Rightarrow> result" where
  "getAvailableProducts this success fail =
     (this,
      log this ''getAvailableProducts called!''
        @ [Cordova_exec success fail plugin ''getAvailableProducts'' [JStr ''null'']],
      Return_exec)"

definition getProductDetails :: "InAppBilling \<Rightarrow> callback \<Rightarrow> callback \<Rightarrow> jsval \<Rightarrow> result" where
  "getProductDetails this success fail productIds0 =
     (let out1 = log this ''getProductDetails called!'';
          productIds = wrap_string productIds0
      in
      case get_length productIds of
        Inl err \<Rightarrow> (this, out1, Throw err)
      | Inr len \<Rightarrow>
          if falsy_length len then (this, out1, Return_undefined)
          else if typeof (index0 productIds) \<noteq> ''string'' then
            (let msg = str_plus ''invalid productIds: '' (JSON_stringify productIds) in
             (this, out1 @ log this msg @ [Invoke fail (JStr msg)], Return_undefined))
          else
            (this,
             out1 @ log this (str_plus ''load '' (JSON_stringify productIds))
               @ [Cordova_exec success fail plugin ''getProductDetails'' [productIds]],
             Return_exec))"

subsection \<open>Observations on a run\<close>

definition instance_of :: "result \<Rightarrow> InAppBilling" where
  "instance_of r = fst r"

definition events_of :: "result \<Rightarrow> event list" where
  "events_of r = fst (snd r)"

definition completion_of :: "result \<Rightarrow> completion" where
  "completion_of r = snd (snd r)"

fun is_bridge_call :: "event \<Rightarrow> bool" where
  "is_bridge_call (Cordova_exec s f p a args) = True"
| "is_bridge_call e = False"

fun is_callback_call :: "event \<Rightarrow> bool" where
  "is_callback_call (Invoke f v) = True"
| "is_callback_call e = False"

fun is_console_output :: "event \<Rightarrow> bool" where
  "is_console_output (Console_log s) = True"
| "is_console_output e = False"

text \<open>The bridge calls of a run, the callback calls, the console lines.\<close>

definition bridge_calls :: "result \<Rightarrow> event list" where
  "bridge_calls r = filter is_bridge_call (events_of r)"

definition callback_calls :: "result \<Rightarrow> event list" where
  "callback_calls r = filter is_callback_call (events_of r)"

definition console_output :: "result \<Rightarrow> event list" where
  "console_output r = filter is_console_output (events_of r)"

section \<open>Properties\<close>

subsection \<open>Auxiliary facts\<close>

lemma typeof_string_iff: "typeof v = ''string'' \<longleftrightarrow> (\<exists>s. v = JStr s)"
  by (cases v) auto

lemma wrap_string_JStr: "wrap_string (JStr s) = JArr [JStr s]"
  by (simp add: wrap_string_def)

lemma wrap_string_JArr: "wrap_string (JArr xs) = JArr xs"
  by (simp add: wrap_string_def)

lemma wrap_string_cases:
  assumes "wrap_string p = JArr ids"
  shows "p = JArr ids \<or> (\<exists>s. p = JStr s \<and> ids = [JStr s])"
  using assms by (cases p) (auto simp: wrap_string_def)

lemma no_bridge_call_in_log: "filter is_bridge_call (log this msg) = []"
  by (simp add: log_def split: log_method.split)

lemma no_callback_call_in_log: "filter is_callback_call (log this msg) = []"
  by (simp add: log_def split: log_method.split)

lemma JSON_stringify_array: "JSON_stringify (JArr xs) = Some (json_text (JArr xs))"
  by (simp add: JSON_stringify_def)

lemmas run_defs =
  Let_def bridge_calls_def callback_calls_def events_of_def completion_of_def
  wrap_string_JArr JSON_stringify_array no_bridge_call_in_log no_callback_call_in_log

text \<open>\<^verbatim>\<open>init\<close> on an array, by its first element.\<close>

lemma init_array_invalid:
  assumes "typeof x \<noteq> ''string''"
  shows "bridge_calls (init this s f opts (JArr (x # xs))) = []"
    and "callback_calls (init this s f opts (JArr (x # xs)))
           = [Invoke f (JStr (''invalid productIds: '' @ json_text (JArr (x # xs))))]"
    and "completion_of (init this s f opts (JArr (x # xs))) = Return_undefined"
  using assms by (simp_all add: init_def run_defs)

lemma init_array_valid:
  shows "bridge_calls (init this s f opts (JArr (JStr a # xs)))
           = [Cordova_exec s f plugin ''init'' [JArr (JStr a # xs)]]"
    and "callback_calls (init this s f opts (JArr (JStr a # xs))) = []"
    and "completion_of (init this s f opts (JArr (JStr a # xs))) = Return_exec"
  by (simp_all add: init_def run_defs)

lemma init_no_ids:
  assumes "p = JUndefined \<or> p = JArr []"
  shows "bridge_calls (init this s f opts p) = [Cordova_exec s f plugin ''init'' []]"
    and "callback_calls (init this s f opts p) = []"
    and "completion_of (init this s f opts p) = Return_exec"
  using assms by (auto simp add: init_def run_defs)

text \<open>\<^verbatim>\<open>getProductDetails\<close> on an array, by its first element.\<close>

lemma getProductDetails_array_invalid:
  assumes "typeof x \<noteq> ''string''"
  shows "bridge_calls (getProductDetails this s f (JArr (x # xs))) = []"
    and "callback_calls (getProductDetails this s f (JArr (x # xs)))
           = [Invoke f (JStr (''invalid productIds: '' @ json_text (JArr (x # xs))))]"
    and "completion_of (getProductDetails this s f (JArr (x # xs))) = Return_undefined"
  using assms by (simp_all add: getProductDetails_def run_defs)

lemma getProductDetails_array_valid:
  shows "bridge_calls (getProductDetails this s f (JArr (JStr a # xs)))
           = [Cordova_exec s f plugin ''getProductDetails'' [JArr (JStr a # xs)]]"
    and "callback_calls (getProductDetails this s f (JArr (JStr a # xs))) = []"
    and "completion_of (getProductDetails this s f (JArr (JStr a # xs))) = Return_exec"
  by (simp_all add: getProductDetails_def run_defs)

lemma getProductDetails_empty:
  "getProductDetails this s f (JArr [])
     = (this, log this ''getProductDetails called!'', Return_undefined)"
  by (simp add: getProductDetails_def Let_def wrap_string_JArr)

text \<open>The events of the path on which the first identifier is a string, in order.\<close>

lemma init_array_valid_events:
  "events_of (init this s f opts (JArr (JStr a # xs)))
     = log (instance_of (init this s f opts (JArr (JStr a # xs)))) ''setup ok''
       @ log (instance_of (init this s f opts (JArr (JStr a # xs))))
           (''load '' @ json_text (JArr (JStr a # xs)))
       @ [Cordova_exec s f plugin ''init'' [JArr (JStr a # xs)]]"
  by (simp add: init_def Let_def events_of_def instance_of_def wrap_string_JArr
      JSON_stringify_array)

lemma getProductDetails_array_valid_events:
  "events_of (getProductDetails this s f (JArr (JStr a # xs)))
     = log this ''getProductDetails called!''
       @ log this (''load '' @ json_text (JArr (JStr a # xs)))
       @ [Cordova_exec s f plugin ''getProductDetails'' [JArr (JStr a # xs)]]"
  by (simp add: getProductDetails_def Let_def events_of_def wrap_string_JArr
      JSON_stringify_array)

text \<open>A string is handled as the array that holds it.\<close>

lemma init_wrap: "init this s f opts (JStr str) = init this s f opts (JArr [JStr str])"
  by (simp add: init_def wrap_string_def)

lemma getProductDetails_wrap:
  "getProductDetails this s f (JStr str) = getProductDetails this s f (JArr [JStr str])"
  by (simp add: getProductDetails_def wrap_string_def)






subsection \<open>Logging (claim C1)\<close>

text \<open>
  Claim C1: after \<^verbatim>\<open>init\<close> with \<^verbatim>\<open>showLog: false\<close> the instance's \<^verbatim>\<open>log\<close> is a no-op,
  so that call and every later operation print nothing.

  The code does otherwise. \<^verbatim>\<open>options.showLog || true\<close> is \<^verbatim>\<open>true\<close> when the option
  is \<^verbatim>\<open>false\<close>, so the test \<^verbatim>\<open>!this.options.showLog\<close> never succeeds and \<^verbatim>\<open>log\<close>
  is never replaced. On a new instance, \<^verbatim>\<open>init(success, fail, {showLog: false})\<close>
  prints the line \<^verbatim>\<open>setup ok\<close>, stores \<^verbatim>\<open>showLog: true\<close> and keeps the printing
  \<^verbatim>\<open>log\<close>; a following \<^verbatim>\<open>buy\<close> prints its line too.
\<close>

theorem showLog_false_still_logs:
  "console_output (init new_InAppBilling (Callback 0) (Callback 1)
       (Opt_object [''showLog'' \<mapsto> JBool False]) JUndefined)
     = [Console_log ''InAppBilling[js]: setup ok''] \<and>
   instance_of (init new_InAppBilling (Callback 0) (Callback 1)
       (Opt_object [''showLog'' \<mapsto> JBool False]) JUndefined)
     = \<lparr> options = [''showLog'' \<mapsto> JBool True], log_method = Log_console \<rparr> \<and>
   console_output (buy (instance_of (init new_InAppBilling (Callback 0) (Callback 1)
       (Opt_object [''showLog'' \<mapsto> JBool False]) JUndefined))
       (Callback 0) (Callback 1) (JStr ''sku1''))
     = [Console_log ''InAppBilling[js]: buy called!'']"
  by (simp add: init_def buy_def Let_def console_output_def events_of_def instance_of_def
      new_InAppBilling_def get_prop_def js_or_def log_def)

subsection \<open>Malformed product identifiers (claim C2)\<close>

text \<open>
  Claim C2: when \<^verbatim>\<open>productIds\<close>, after a string has been wrapped, is a non-empty
  array whose first element is not a string, neither \<^verbatim>\<open>init\<close> nor
  \<^verbatim>\<open>getProductDetails\<close> calls the bridge; each calls the failure callback once,
  before it returns, with the string \<^verbatim>\<open>invalid productIds: \<close> followed by the
  JSON text of the input.
\<close>

theorem malformed_productIds_rejected:
  assumes "wrap_string productIds = JArr (x # xs)" and "typeof x \<noteq> ''string''"
  shows "bridge_calls (init this success fail opts productIds) = [] \<and>
         callback_calls (init this success fail opts productIds)
           = [Invoke fail (JStr (''invalid productIds: '' @ json_text productIds))] \<and>
         completion_of (init this success fail opts productIds) = Return_undefined \<and>
         bridge_calls (getProductDetails this success fail productIds) = [] \<and>
         callback_calls (getProductDetails this success fail productIds)
           = [Invoke fail (JStr (''invalid productIds: '' @ json_text productIds))] \<and>
         completion_of (getProductDetails this success fail productIds) = Return_undefined \<and>
         JSON_stringify productIds = Some (json_text productIds)"
proof -
  from assms(1)
  have "productIds = JArr (x # xs) \<or> (\<exists>s. productIds = JStr s \<and> x # xs = [JStr s])"
    by (rule wrap_string_cases)
  with assms(2) have ids: "productIds = JArr (x # xs)"
    by auto
  show ?thesis
    unfolding ids
    using init_array_invalid [OF assms(2)] getProductDetails_array_invalid [OF assms(2)]
    by (simp add: JSON_stringify_array)
qed

text \<open>The array \<^verbatim>\<open>[42]\<close>: the failure callback receives \<^verbatim>\<open>invalid productIds: [42]\<close>.\<close>

theorem malformed_productIds_rejected_witness:
  "wrap_string (JArr [JNum (Abs_safe_integer 42)]) = JArr [JNum (Abs_safe_integer 42)] \<and>
   typeof (JNum (Abs_safe_integer 42)) \<noteq> ''string'' \<and>
   bridge_calls (init new_InAppBilling (Callback 0) (Callback 1) Opt_undefined
       (JArr [JNum (Abs_safe_integer 42)])) = [] \<and>
   callback_calls (init new_InAppBilling (Callback 0) (Callback 1) Opt_undefined
       (JArr [JNum (Abs_safe_integer 42)]))
     = [Invoke (Callback 1) (JStr ''invalid productIds: [42]'')] \<and>
   bridge_calls (getProductDetails new_InAppBilling (Callback 0) (Callback 1)
       (JArr [JNum (Abs_safe_integer 42)])) = [] \<and>
   callback_calls (getProductDetails new_InAppBilling (Callback 0) (Callback 1)
       (JArr [JNum (Abs_safe_integer 42)]))
     = [Invoke (Callback 1) (JStr ''invalid productIds: [42]'')]"
  using malformed_productIds_rejected [of "JArr [JNum (Abs_safe_integer 42)]"
      "JNum (Abs_safe_integer 42)" "[]" new_InAppBilling "Callback 0" "Callback 1"
      Opt_undefined]
  by (simp add: wrap_string_def number_to_string_def Abs_safe_integer_inverse decimal.simps
      digit_def)

subsection \<open>Nothing to look up (claim C3)\<close>

text \<open>
  Claim C3, as amended: \<^verbatim>\<open>getProductDetails\<close> with an empty array returns after its
  log line, with no bridge call and no callback called. A string, the empty one
  included, is not such a case: it is wrapped into a one-element array and
  forwarded to the bridge.
\<close>

theorem empty_sequence_is_silent:
  "getProductDetails this success fail (JArr [])
     = (this, log this ''getProductDetails called!'', Return_undefined) \<and>
   bridge_calls (getProductDetails this success fail (JArr [])) = [] \<and>
   callback_calls (getProductDetails this success fail (JArr [])) = [] \<and>
   bridge_calls (getProductDetails this success fail (JStr str))
     = [Cordova_exec success fail ''InAppBillingPlugin'' ''getProductDetails''
          [JArr [JStr str]]]"
proof -
  have "bridge_calls (getProductDetails this success fail (JArr [])) = []"
    by (simp add: getProductDetails_empty bridge_calls_def events_of_def no_bridge_call_in_log)
  moreover have "callback_calls (getProductDetails this success fail (JArr [])) = []"
    by (simp add: getProductDetails_empty callback_calls_def events_of_def
        no_callback_call_in_log)
  moreover have "bridge_calls (getProductDetails this success fail (JStr str))
     = [Cordova_exec success fail ''InAppBillingPlugin'' ''getProductDetails''
          [JArr [JStr str]]]"
    by (simp add: getProductDetails_wrap getProductDetails_array_valid plugin_def)
  ultimately show ?thesis
    by (simp add: getProductDetails_empty)
qed

text \<open>
  Claim C3 as it was stated also covers the empty string. There the code does
  call the bridge: \<^verbatim>\<open>""\<close> becomes \<^verbatim>\<open>[""]\<close>, whose length is one and whose first
  element is a string.
\<close>

theorem empty_string_reaches_bridge:
  "bridge_calls (getProductDetails new_InAppBilling (Callback 0) (Callback 1) (JStr []))
     = [Cordova_exec (Callback 0) (Callback 1) ''InAppBillingPlugin'' ''getProductDetails''
          [JArr [JStr []]]]"
  by (simp add: getProductDetails_def Let_def bridge_calls_def events_of_def wrap_string_def
      new_InAppBilling_def log_def plugin_def)

subsection \<open>A single identifier (claim C4)\<close>

text \<open>
  Claim C4: a string passed as \<^verbatim>\<open>productIds\<close> to \<^verbatim>\<open>init\<close> or \<^verbatim>\<open>getProductDetails\<close>
  is replaced by the array holding just that string before it is checked, logged
  or forwarded: the check passes, the log line and the bridge call carry the
  one-element array, no callback is called, and the whole call (events, instance
  and return) is the call on that array.
\<close>

theorem bare_string_is_wrapped:
  "wrap_string (JStr str) = JArr [JStr str] \<and>
   events_of (init this success fail opts (JStr str))
     = log (instance_of (init this success fail opts (JStr str))) ''setup ok''
       @ log (instance_of (init this success fail opts (JStr str)))
           (''load '' @ json_text (JArr [JStr str]))
       @ [Cordova_exec success fail ''InAppBillingPlugin'' ''init'' [JArr [JStr str]]] \<and>
   events_of (getProductDetails this success fail (JStr str))
     = log this ''getProductDetails called!''
       @ log this (''load '' @ json_text (JArr [JStr str]))
       @ [Cordova_exec success fail ''InAppBillingPlugin'' ''getProductDetails''
            [JArr [JStr str]]] \<and>
   bridge_calls (init this success fail opts (JStr str))
     = [Cordova_exec success fail ''InAppBillingPlugin'' ''init'' [JArr [JStr str]]] \<and>
   bridge_calls (getProductDetails this success fail (JStr str))
     = [Cordova_exec success fail ''InAppBillingPlugin'' ''getProductDetails''
          [JArr [JStr str]]] \<and>
   callback_calls (init this success fail opts (JStr str)) = [] \<and>
   callback_calls (getProductDetails this success fail (JStr str)) = [] \<and>
   completion_of (init this success fail opts (JStr str)) = Return_exec \<and>
   completion_of (getProductDetails this success fail (JStr str)) = Return_exec \<and>
   init this success fail opts (JStr str) = init this success fail opts (JArr [JStr str]) \<and>
   getProductDetails this success fail (JStr str)
     = getProductDetails this success fail (JArr [JStr str])"
  by (simp add: wrap_string_JStr init_wrap getProductDetails_wrap init_array_valid
      getProductDetails_array_valid init_array_valid_events
      getProductDetails_array_valid_events plugin_def)

subsection \<open>The error codes (claim C5)\<close>

text \<open>
  Claim C5: each \<^verbatim>\<open>ERR_*\<close> constant is 4983497 plus its offset, from 1 for
  \<^verbatim>\<open>ERR_SETUP\<close> to 20 for \<^verbatim>\<open>ERR_CONSUMPTION_FAILED\<close>; no constant has offset 9;
  the nineteen constants are pairwise different.
\<close>

theorem error_codes_table:
  "ERR_SETUP = 4983497 + 1 \<and> ERR_LOAD = 4983497 + 2 \<and> ERR_PURCHASE = 4983497 + 3 \<and>
   ERR_LOAD_RECEIPTS = 4983497 + 4 \<and> ERR_CLIENT_INVALID = 4983497 + 5 \<and>
   ERR_PAYMENT_CANCELLED = 4983497 + 6 \<and> ERR_PAYMENT_INVALID = 4983497 + 7 \<and>
   ERR_PAYMENT_NOT_ALLOWED = 4983497 + 8 \<and> ERR_UNKNOWN = 4983497 + 10 \<and>
   ERR_LOAD_INVENTORY = 4983497 + 11 \<and> ERR_HELPER_DISPOSED = 4983497 + 12 \<and>
   ERR_NOT_INITIALIZED = 4983497 + 13 \<and> ERR_INVENTORY_NOT_LOADED = 4983497 + 14 \<and>
   ERR_PURCHASE_FAILED = 4983497 + 15 \<and> ERR_JSON_CONVERSION_FAILED = 4983497 + 16 \<and>
   ERR_INVALID_PURCHASE_PAYLOAD = 4983497 + 17 \<and>
   ERR_SUBSCRIPTION_NOT_SUPPORTED = 4983497 + 18 \<and>
   ERR_CONSUME_NOT_OWNED_ITEM = 4983497 + 19 \<and> ERR_CONSUMPTION_FAILED = 4983497 + 20 \<and>
   length error_codes = 19 \<and> distinct error_codes \<and> 4983497 + 9 \<notin> set error_codes"
  by (simp add: error_codes_def ERROR_CODES_BASE_def ERR_SETUP_def ERR_LOAD_def ERR_PURCHASE_def
      ERR_LOAD_RECEIPTS_def ERR_CLIENT_INVALID_def ERR_PAYMENT_CANCELLED_def
      ERR_PAYMENT_INVALID_def ERR_PAYMENT_NOT_ALLOWED_def ERR_UNKNOWN_def
      ERR_LOAD_INVENTORY_def ERR_HELPER_DISPOSED_def ERR_NOT_INITIALIZED_def
      ERR_INVENTORY_NOT_LOADED_def ERR_PURCHASE_FAILED_def ERR_JSON_CONVERSION_FAILED_def
      ERR_INVALID_PURCHASE_PAYLOAD_def ERR_SUBSCRIPTION_NOT_SUPPORTED_def
      ERR_CONSUME_NOT_OWNED_ITEM_def ERR_CONSUMPTION_FAILED_def)

subsection \<open>What init forwards (claim C6)\<close>

text \<open>
  Claim C6: when \<^verbatim>\<open>productIds\<close>, after a string has been wrapped, is a non-empty
  array of strings, \<^verbatim>\<open>init\<close> calls the bridge with action \<^verbatim>\<open>init\<close> and an argument
  list whose only element is that array; when \<^verbatim>\<open>productIds\<close> is absent or an empty
  array, it calls the bridge with action \<^verbatim>\<open>init\<close> and the empty argument list.
\<close>

theorem init_forwards_productIds:
  "(wrap_string productIds = JArr ids \<and> ids \<noteq> [] \<and> (\<forall>x \<in> set ids. typeof x = ''string'')
      \<longrightarrow> bridge_calls (init this success fail opts productIds)
            = [Cordova_exec success fail ''InAppBillingPlugin'' ''init'' [JArr ids]]) \<and>
   (productIds = JUndefined \<or> wrap_string productIds = JArr []
      \<longrightarrow> bridge_calls (init this success fail opts productIds)
            = [Cordova_exec success fail ''InAppBillingPlugin'' ''init'' []])"
proof (intro conjI impI)
  assume h: "wrap_string productIds = JArr ids \<and> ids \<noteq> []
    \<and> (\<forall>x \<in> set ids. typeof x = ''string'')"
  then obtain x xs where ids: "ids = x # xs"
    by (cases ids) auto
  with h obtain a where x: "x = JStr a"
    by (auto simp: typeof_string_iff)
  from h have "productIds = JArr ids \<or> (\<exists>s. productIds = JStr s \<and> ids = [JStr s])"
    by (simp add: wrap_string_cases)
  then have "init this success fail opts productIds = init this success fail opts (JArr ids)"
    by (auto simp: init_wrap)
  then show "bridge_calls (init this success fail opts productIds)
            = [Cordova_exec success fail ''InAppBillingPlugin'' ''init'' [JArr ids]]"
    using init_array_valid(1) [of this success fail opts a xs]
    by (simp add: ids x plugin_def)
next
  assume h: "productIds = JUndefined \<or> wrap_string productIds = JArr []"
  have "productIds = JUndefined \<or> productIds = JArr []"
    using h wrap_string_cases [of productIds "[]"] by auto
  then show "bridge_calls (init this success fail opts productIds)
            = [Cordova_exec success fail ''InAppBillingPlugin'' ''init'' []]"
    using init_no_ids(1) [of productIds this success fail opts] by (simp add: plugin_def)
qed

text \<open>
  \<^verbatim>\<open>init(success, fail, {showLog: false}, "sku1")\<close> forwards \<^verbatim>\<open>[["sku1"]]\<close>; without
  identifiers, and with \<^verbatim>\<open>[]\<close>, the argument list is empty.
\<close>

theorem init_forwards_productIds_witness:
  "bridge_calls (init new_InAppBilling (Callback 0) (Callback 1)
       (Opt_object [''showLog'' \<mapsto> JBool False]) (JStr ''sku1''))
     = [Cordova_exec (Callback 0) (Callback 1) ''InAppBillingPlugin'' ''init''
          [JArr [JStr ''sku1'']]] \<and>
   bridge_calls (init new_InAppBilling (Callback 0) (Callback 1) Opt_undefined JUndefined)
     = [Cordova_exec (Callback 0) (Callback 1) ''InAppBillingPlugin'' ''init'' []] \<and>
   bridge_calls (init new_InAppBilling (Callback 0) (Callback 1) Opt_undefined (JArr []))
     = [Cordova_exec (Callback 0) (Callback 1) ''InAppBillingPlugin'' ''init'' []]"
  using init_forwards_productIds [of "JStr ''sku1''" "[JStr ''sku1'']" new_InAppBilling
      "Callback 0" "Callback 1" "Opt_object [''showLog'' \<mapsto> JBool False]"]
    init_forwards_productIds [of JUndefined "[]" new_InAppBilling "Callback 0" "Callback 1"
      Opt_undefined]
    init_forwards_productIds [of "JArr []" "[]" new_InAppBilling "Callback 0" "Callback 1"
      Opt_undefined]
  by (simp add: wrap_string_def)

subsection \<open>Operations on one product (claim C7)\<close>

text \<open>
  Claim C7: \<^verbatim>\<open>buy\<close>, \<^verbatim>\<open>subscribe\<close> and \<^verbatim>\<open>consumePurchase\<close> accept any \<^verbatim>\<open>productId\<close>
  unchecked. Each makes exactly one bridge call: the caller's two callbacks, the
  plugin name \<^verbatim>\<open>InAppBillingPlugin\<close>, its own action name and the argument list
  \<^verbatim>\<open>[productId]\<close>. None calls a callback itself, and each returns what the bridge
  call returns.
\<close>

theorem purchase_calls_forwarded:
  "bridge_calls (buy this success fail productId)
     = [Cordova_exec success fail ''InAppBillingPlugin'' ''buy'' [productId]] \<and>
   bridge_calls (subscribe this success fail productId)
     = [Cordova_exec success fail ''InAppBillingPlugin'' ''subscribe'' [productId]] \<and>
   bridge_calls (consumePurchase this success fail productId)
     = [Cordova_exec success fail ''InAppBillingPlugin'' ''consumePurchase'' [productId]] \<and>
   callback_calls (buy this success fail productId) = [] \<and>
   callback_calls (subscribe this success fail productId) = [] \<and>
   callback_calls (consumePurchase this success fail productId) = [] \<and>
   completion_of (buy this success fail productId) = Return_exec \<and>
   completion_of (subscribe this success fail productId) = Return_exec \<and>
   completion_of (consumePurchase this success fail productId) = Return_exec"
  by (simp add: buy_def subscribe_def consumePurchase_def bridge_calls_def callback_calls_def
      completion_of_def events_of_def plugin_def no_bridge_call_in_log no_callback_call_in_log)

subsection \<open>Queries without input (claim C8)\<close>

text \<open>
  Claim C8: \<^verbatim>\<open>getPurchases\<close> and \<^verbatim>\<open>getAvailableProducts\<close> take only the two
  callbacks and check nothing. Each makes exactly one bridge call, with its own
  action name and an argument list of one fixed element, the string \<^verbatim>\<open>"null"\<close>.
\<close>

theorem query_calls_forwarded:
  "bridge_calls (getPurchases this success fail)
     = [Cordova_exec success fail ''InAppBillingPlugin'' ''getPurchases'' [JStr ''null'']] \<and>
   bridge_calls (getAvailableProducts this success fail)
     = [Cordova_exec success fail ''InAppBillingPlugin'' ''getAvailableProducts''
          [JStr ''null'']] \<and>
   callback_calls (getPurchases this success fail) = [] \<and>
   callback_calls (getAvailableProducts this success fail) = [] \<and>
   completion_of (getPurchases this success fail) = Return_exec \<and>
   completion_of (getAvailableProducts this success fail) = Return_exec"
  by (simp add: getPurchases_def getAvailableProducts_def bridge_calls_def callback_calls_def
      completion_of_def events_of_def plugin_def no_bridge_call_in_log no_callback_call_in_log)

subsection \<open>Options left out (claim C9)\<close>




subsection \<open>Only the first identifier is checked (claim C10)\<close>

text \<open>
  Claim C10: for a non-empty array whose first element is a string, \<^verbatim>\<open>init\<close> and
  \<^verbatim>\<open>getProductDetails\<close> call the bridge and forward the array as it is, whatever
  the later elements are; the failure callback is not called.
\<close>

theorem only_first_element_checked:
  assumes "typeof x = ''string''"
  shows "bridge_calls (init this success fail opts (JArr (x # rest)))
           = [Cordova_exec success fail ''InAppBillingPlugin'' ''init'' [JArr (x # rest)]] \<and>
         bridge_calls (getProductDetails this success fail (JArr (x # rest)))
           = [Cordova_exec success fail ''InAppBillingPlugin'' ''getProductDetails''
                [JArr (x # rest)]] \<and>
         callback_calls (init this success fail opts (JArr (x # rest))) = [] \<and>
         callback_calls (getProductDetails this success fail (JArr (x # rest))) = []"
proof -
  from assms obtain a where x: "x = JStr a"
    by (auto simp: typeof_string_iff)
  show ?thesis
    unfolding x by (simp add: init_array_valid getProductDetails_array_valid plugin_def)
qed

text \<open>The array \<^verbatim>\<open>["sku1", 42, null]\<close> passes the check and is forwarded whole.\<close>

theorem only_first_element_checked_witness:
  "typeof (JStr ''sku1'') = ''string'' \<and>
   bridge_calls (init new_InAppBilling (Callback 0) (Callback 1) Opt_undefined
       (JArr [JStr ''sku1'', JNum (Abs_safe_integer 42), JNull]))
     = [Cordova_exec (Callback 0) (Callback 1) ''InAppBillingPlugin'' ''init''
          [JArr [JStr ''sku1'', JNum (Abs_safe_integer 42), JNull]]] \<and>
   bridge_calls (getProductDetails new_InAppBilling (Callback 0) (Callback 1)
       (JArr [JStr ''sku1'', JNum (Abs_safe_integer 42), JNull]))
     = [Cordova_exec (Callback 0) (Callback 1) ''InAppBillingPlugin'' ''getProductDetails''
          [JArr [JStr ''sku1'', JNum (Abs_safe_integer 42), JNull]]]"
  using only_first_element_checked [of "JStr ''sku1''" new_InAppBilling "Callback 0"
      "Callback 1" Opt_undefined "[JNum (Abs_safe_integer 42), JNull]"]
  by simp

end
